theory Spec2Isabelle
  imports Main
begin

section \<open>JavaScript values used by the task store\<close>

text \<open>
  The store (\<open>TasksContext.js\<close>) keeps an array of task objects. A string of the program
  is a \<open>string\<close> here, one \<open>char\<close> for one code unit below 256. A number of the program
  is an integer or the value \<open>NaN\<close> (the only non-integer number the weight arithmetic
  can produce).
\<close>

datatype jsnum = Number int | NaN

text \<open>
  What reading a property \<open>obj[key]\<close> of one of the two weight tables can give: the
  number stored under an own key, a function or object inherited from
  \<open>Object.prototype\<close>, or \<open>undefined\<close>.
\<close>

datatype propval = PNumber int | PInherited | PUndefined

text \<open>The property names every object literal inherits from \<open>Object.prototype\<close>.\<close>

definition objectPrototypeKeys :: "string list" where
  "objectPrototypeKeys =
     [''constructor'', ''hasOwnProperty'', ''isPrototypeOf'', ''propertyIsEnumerable'',
      ''toLocaleString'', ''toString'', ''valueOf'', ''__proto__'',
      ''__defineGetter__'', ''__defineSetter__'', ''__lookupGetter__'', ''__lookupSetter__'']"

text \<open>\<open>obj[key]\<close> for an object literal \<open>obj\<close> with the given own properties.\<close>

definition getProp :: "(string \<times> int) list \<Rightarrow> string \<Rightarrow> propval" where
  "getProp obj key =
     (case map_of obj key of
        Some n \<Rightarrow> PNumber n
      | None \<Rightarrow> if key \<in> set objectPrototypeKeys then PInherited else PUndefined)"

text \<open>\<open>v || 1\<close>: the left operand when it is truthy, else 1.\<close>

fun orOne :: "propval \<Rightarrow> propval" where
  "orOne (PNumber n) = (if n = 0 then PNumber 1 else PNumber n)"
| "orOne PInherited = PInherited"
| "orOne PUndefined = PNumber 1"

text \<open>\<open>ToNumber\<close>: a function or a plain object converts to \<open>NaN\<close>, as \<open>undefined\<close> does.\<close>

fun toNumber :: "propval \<Rightarrow> jsnum" where
  "toNumber (PNumber n) = Number n"
| "toNumber PInherited = NaN"
| "toNumber PUndefined = NaN"

fun jsMul :: "jsnum \<Rightarrow> jsnum \<Rightarrow> jsnum" where
  "jsMul (Number a) (Number b) = Number (a * b)"
| "jsMul _ _ = NaN"

fun jsSub :: "jsnum \<Rightarrow> jsnum \<Rightarrow> jsnum" where
  "jsSub (Number a) (Number b) = Number (a - b)"
| "jsSub _ _ = NaN"

text \<open>\<open>a !== b\<close> on numbers: \<open>NaN\<close> differs from every number, itself included.\<close>

fun jsStrictNe :: "jsnum \<Rightarrow> jsnum \<Rightarrow> bool" where
  "jsStrictNe (Number a) (Number b) = (a \<noteq> b)"
| "jsStrictNe _ _ = True"

text \<open>\<open>a >= b\<close> on numbers: false as soon as one side is \<open>NaN\<close>.\<close>

fun jsGe :: "jsnum \<Rightarrow> jsnum \<Rightarrow> bool" where
  "jsGe (Number a) (Number b) = (b \<le> a)"
| "jsGe _ _ = False"

fun isNumber :: "jsnum \<Rightarrow> bool" where
  "isNumber (Number _) = True"
| "isNumber NaN = False"

section \<open>Tasks and their weight\<close>

text \<open>
  A task object. The field \<open>id_task\<close> is the property \<open>id\<close> of the program; the times are
  milliseconds, as \<open>Date.now()\<close> gives them.
\<close>

record task =
  id_task :: string
  name :: string
  type :: string
  timing :: string
  completed :: bool
  todaySelected :: bool
  createdAt :: int
  updatedAt :: int
  weight :: jsnum

definition TYPE_WEIGHTS :: "(string \<times> int) list" where
  "TYPE_WEIGHTS = [(''Want'', 1), (''Need'', 2), (''Both'', 3)]"

definition TIMING_WEIGHTS :: "(string \<times> int) list" where
  "TIMING_WEIGHTS = [(''Today'', 2), (''Later'', 1)]"

definition computeWeight :: "task \<Rightarrow> jsnum" where
  "computeWeight t =
     (let typeWeight = orOne (getProp TYPE_WEIGHTS (type t));
          timingWeight = orOne (getProp TIMING_WEIGHTS (timing t))
      in jsMul (toNumber typeWeight) (toNumber timingWeight))"

text \<open>
  \<open>String.prototype.trim\<close>: white space and line terminators are removed at both ends.
  Among code units below 256 these are TAB, LF, VT, FF, CR, SPACE and NBSP.
\<close>

definition isWhiteSpace :: "char \<Rightarrow> bool" where
  "isWhiteSpace c = ((of_char c :: nat) \<in> set [9, 10, 11, 12, 13, 32, 160])"

definition trim :: "string \<Rightarrow> string" where
  "trim s = rev (dropWhile isWhiteSpace (rev (dropWhile isWhiteSpace s)))"

section \<open>The store\<close>

text \<open>
  The state of \<open>TasksProvider\<close>: the three \<open>useState\<close> cells. Every operation takes the
  state and returns what the call returns together with the state after it. A call
  completes with \<open>Inr v\<close> when it returns \<open>v\<close> and with \<open>Inl e\<close> when it throws \<open>e\<close>.
  The values of \<open>uuidv4()\<close> and \<open>Date.now()\<close> that a call reads are arguments.
\<close>

record store =
  tasks :: "task list"
  lastActiveDate :: "string option"
  isInitialised :: bool

text \<open>
  The two error kinds the specification names for the store. The result of a call is
  \<open>undefined\<close> or a string.
\<close>

datatype error = ValidationError | NotFoundError

datatype retval = Undefined | Str string

type_synonym completion = "error + retval"

text \<open>The \<open>updates\<close> object of \<open>updateTask\<close>: any subset of the properties of a task.\<close>

record updates =
  u_id :: "string option"
  u_name :: "string option"
  u_type :: "string option"
  u_timing :: "string option"
  u_completed :: "bool option"
  u_todaySelected :: "bool option"
  u_createdAt :: "int option"
  u_updatedAt :: "int option"
  u_weight :: "jsnum option"

definition noUpdates :: updates where
  "noUpdates = \<lparr>u_id = None, u_name = None, u_type = None, u_timing = None,
     u_completed = None, u_todaySelected = None, u_createdAt = None, u_updatedAt = None,
     u_weight = None\<rparr>"

text \<open>The object spread \<open>{ ...t, ...updates }\<close>.\<close>

definition spread :: "task \<Rightarrow> updates \<Rightarrow> task" where
  "spread t u =
     \<lparr>id_task = (case u_id u of Some v \<Rightarrow> v | None \<Rightarrow> id_task t),
      name = (case u_name u of Some v \<Rightarrow> v | None \<Rightarrow> name t),
      type = (case u_type u of Some v \<Rightarrow> v | None \<Rightarrow> type t),
      timing = (case u_timing u of Some v \<Rightarrow> v | None \<Rightarrow> timing t),
      completed = (case u_completed u of Some v \<Rightarrow> v | None \<Rightarrow> completed t),
      todaySelected = (case u_todaySelected u of Some v \<Rightarrow> v | None \<Rightarrow> todaySelected t),
      createdAt = (case u_createdAt u of Some v \<Rightarrow> v | None \<Rightarrow> createdAt t),
      updatedAt = (case u_updatedAt u of Some v \<Rightarrow> v | None \<Rightarrow> updatedAt t),
      weight = (case u_weight u of Some v \<Rightarrow> v | None \<Rightarrow> weight t)\<rparr>"

text \<open>
  \<open>addTask\<close>. The object literal has no \<open>weight\<close> yet (the placeholder \<open>NaN\<close> below,
  which \<open>computeWeight\<close> does not read); the next statement assigns it.
\<close>

definition addTask ::
  "string \<Rightarrow> int \<Rightarrow> int \<Rightarrow> string \<Rightarrow> string \<Rightarrow> string \<Rightarrow> store \<Rightarrow> completion \<times> store" where
  "addTask uuid nowCreated nowUpdated nm ty tm s =
     (let newTask = \<lparr>id_task = uuid, name = trim nm, type = ty, timing = tm,
                      completed = False, todaySelected = False,
                      createdAt = nowCreated, updatedAt = nowUpdated, weight = NaN\<rparr>;
          newTask = newTask\<lparr>weight := computeWeight newTask\<rparr>
      in (Inr Undefined, s\<lparr>tasks := newTask # tasks s\<rparr>))"

text \<open>\<open>now\<close> is the value of \<open>Date.now()\<close> read for the task that is changed.\<close>

definition updateTask :: "int \<Rightarrow> string \<Rightarrow> updates \<Rightarrow> store \<Rightarrow> completion \<times> store" where
  "updateTask now i u s =
     (Inr Undefined,
      s\<lparr>tasks := map (\<lambda>t. if id_task t \<noteq> i then t
                          else let updated = (spread t u)\<lparr>updatedAt := now\<rparr>
                               in updated\<lparr>weight := computeWeight updated\<rparr>) (tasks s)\<rparr>)"

definition removeTask :: "string \<Rightarrow> store \<Rightarrow> completion \<times> store" where
  "removeTask i s = (Inr Undefined, s\<lparr>tasks := filter (\<lambda>t. id_task t \<noteq> i) (tasks s)\<rparr>)"

definition toggleCompleted :: "int \<Rightarrow> string \<Rightarrow> store \<Rightarrow> completion \<times> store" where
  "toggleCompleted now i s =
     (Inr Undefined,
      s\<lparr>tasks := map (\<lambda>t. if id_task t = i
                          then t\<lparr>completed := \<not> completed t,
                                 todaySelected := (if completed t then todaySelected t else False),
                                 updatedAt := now\<rparr>
                          else t) (tasks s)\<rparr>)"

definition setTodaySelected :: "int \<Rightarrow> string \<Rightarrow> bool \<Rightarrow> store \<Rightarrow> completion \<times> store" where
  "setTodaySelected now i selected s =
     (Inr Undefined,
      s\<lparr>tasks := map (\<lambda>t. if id_task t = i then t\<lparr>todaySelected := selected, updatedAt := now\<rparr>
                          else t) (tasks s)\<rparr>)"

definition clearTodaySelections :: "store \<Rightarrow> completion \<times> store" where
  "clearTodaySelections s =
     (Inr Undefined, s\<lparr>tasks := map (\<lambda>t. t\<lparr>todaySelected := False\<rparr>) (tasks s)\<rparr>)"

text \<open>\<open>todayStr\<close> is the date part of \<open>new Date().toISOString()\<close>.\<close>

definition isNewDay :: "string \<Rightarrow> store \<Rightarrow> bool \<times> store" where
  "isNewDay todayStr s = (lastActiveDate s \<noteq> Some todayStr, s)"

definition updateLastActiveDate :: "string \<Rightarrow> store \<Rightarrow> completion \<times> store" where
  "updateLastActiveDate todayStr s = (Inr Undefined, s\<lparr>lastActiveDate := Some todayStr\<rparr>)"

section \<open>Elimination candidates\<close>

text \<open>
  \<open>Array.prototype.sort(comparefn)\<close>. The result of \<open>comparefn\<close> is read as a number, and
  \<open>NaN\<close> counts as 0. The sort is stable; for a consistent comparator the sorted array is
  then determined, and the insertion sort below computes it: an element goes before the
  first element to its right that it does not have to follow. For a comparator that is
  not consistent (here: as soon as weights that are \<open>NaN\<close> meet weights that differ) the
  language leaves the order to the engine; the function below still returns a
  permutation of the array then, but not in the engine's order, and no statement below
  relies on its order in that case.
\<close>

definition sortCompare :: "('a \<Rightarrow> 'a \<Rightarrow> jsnum) \<Rightarrow> 'a \<Rightarrow> 'a \<Rightarrow> int" where
  "sortCompare comparefn x y = (case comparefn x y of Number v \<Rightarrow> v | NaN \<Rightarrow> 0)"

fun insertSorted :: "('a \<Rightarrow> 'a \<Rightarrow> jsnum) \<Rightarrow> 'a \<Rightarrow> 'a list \<Rightarrow> 'a list" where
  "insertSorted comparefn x [] = [x]"
| "insertSorted comparefn x (y # ys) =
     (if sortCompare comparefn x y \<le> 0 then x # y # ys
      else y # insertSorted comparefn x ys)"

fun arraySort :: "('a \<Rightarrow> 'a \<Rightarrow> jsnum) \<Rightarrow> 'a list \<Rightarrow> 'a list" where
  "arraySort comparefn [] = []"
| "arraySort comparefn (x # xs) = insertSorted comparefn x (arraySort comparefn xs)"

text \<open>\<open>Array.from(new Set(xs))\<close>: the distinct values, each at its first occurrence.\<close>

fun arrayFromSet :: "'a list \<Rightarrow> 'a list" where
  "arrayFromSet [] = []"
| "arrayFromSet (x # xs) = x # filter (\<lambda>y. y \<noteq> x) (arrayFromSet xs)"

text \<open>The comparator of the tasks: \<open>localeCompare\<close> is the engine's, an argument here.\<close>

definition taskCompare :: "(string \<Rightarrow> string \<Rightarrow> int) \<Rightarrow> task \<Rightarrow> task \<Rightarrow> jsnum" where
  "taskCompare localeCompare a b =
     (if jsStrictNe (weight b) (weight a) then jsSub (weight b) (weight a)
      else Number (localeCompare (name a) (name b)))"

definition weightDescending :: "jsnum \<Rightarrow> jsnum \<Rightarrow> jsnum" where
  "weightDescending a b = jsSub b a"

text \<open>
  \<open>getEliminationCandidates\<close> returns the array and leaves the state as it is:
  \<open>filter\<close> makes a new array \<open>pending\<close>, which \<open>sort\<close> then orders in place, so the
  array \<open>tasks\<close> of the state is not written.
\<close>

definition getEliminationCandidates ::
  "(string \<Rightarrow> string \<Rightarrow> int) \<Rightarrow> store \<Rightarrow> task list \<times> store" where
  "getEliminationCandidates localeCompare s =
     (let pending = filter (\<lambda>t. \<not> completed t) (tasks s);
          sortedTasks = arraySort (taskCompare localeCompare) pending;
          uniqueWeights = take 5 (arraySort weightDescending (arrayFromSet (map weight sortedTasks)));
          filtered = filter (\<lambda>t. weight t \<in> set uniqueWeights) sortedTasks
      in (take 10 filtered, s))"

text \<open>
  The same computation with the two sorts as arguments, to state what holds whatever
  order a sort leaves the array in.
\<close>

definition candidatesBy ::
  "(task list \<Rightarrow> task list) \<Rightarrow> (jsnum list \<Rightarrow> jsnum list) \<Rightarrow> task list \<Rightarrow> task list" where
  "candidatesBy sortTasks sortWeights ts =
     (let pending = filter (\<lambda>t. \<not> completed t) ts;
          sortedTasks = sortTasks pending;
          uniqueWeights = take 5 (sortWeights (arrayFromSet (map weight sortedTasks)));
          filtered = filter (\<lambda>t. weight t \<in> set uniqueWeights) sortedTasks
      in take 10 filtered)"

section \<open>Loading the persisted state\<close>

text \<open>
  What \<open>AsyncStorage.getItem\<close> gives: the promise rejects, or resolves to \<open>null\<close> (or to
  the empty string, which is falsy as well), or resolves to a string. For the key
  \<open>@tasks\<close> the string either parses to an array of task objects or makes
  \<open>JSON.parse\<close> or \<open>parsed.map\<close> throw.
\<close>

datatype 'a item = Rejected | Missing | Found 'a

definition sampleTasks :: "(nat \<Rightarrow> string) \<Rightarrow> (nat \<Rightarrow> int) \<Rightarrow> task list" where
  "sampleTasks uuid now =
     [\<lparr>id_task = uuid 0, name = ''Read a book'', type = ''Want'', timing = ''Later'',
       completed = False, todaySelected = False, createdAt = now 0, updatedAt = now 1,
       weight = NaN\<rparr>,
      \<lparr>id_task = uuid 1, name = ''Pay bills'', type = ''Need'', timing = ''Today'',
       completed = False, todaySelected = False, createdAt = now 2, updatedAt = now 3,
       weight = NaN\<rparr>,
      \<lparr>id_task = uuid 2, name = ''Exercise'', type = ''Both'', timing = ''Today'',
       completed = False, todaySelected = False, createdAt = now 4, updatedAt = now 5,
       weight = NaN\<rparr>]"

text \<open>
  The effect \<open>init\<close> run on mount. \<open>uuid k\<close> and \<open>now k\<close> are the values of the
  \<open>k\<close>-th call of \<open>uuidv4()\<close> and of \<open>Date.now()\<close>. An exception anywhere in the
  \<open>try\<close> block skips the rest of it; \<open>finally\<close> sets \<open>isInitialised\<close>.
\<close>

definition init ::
  "(task list option) item \<Rightarrow> string item \<Rightarrow> (nat \<Rightarrow> string) \<Rightarrow> (nat \<Rightarrow> int) \<Rightarrow> store \<Rightarrow> store" where
  "init tasksJSON dateStr uuid now s =
     (case tasksJSON of
        Rejected \<Rightarrow> s\<lparr>isInitialised := True\<rparr>
      | _ \<Rightarrow>
        (case dateStr of
           Rejected \<Rightarrow> s\<lparr>isInitialised := True\<rparr>
         | _ \<Rightarrow>
           (let date = (case dateStr of Found d \<Rightarrow> Some d | _ \<Rightarrow> None) in
            case tasksJSON of
              Found None \<Rightarrow> s\<lparr>isInitialised := True\<rparr>
            | Found (Some parsed) \<Rightarrow>
                (let withWeights = map (\<lambda>t. t\<lparr>weight := computeWeight t\<rparr>) parsed
                 in s\<lparr>tasks := withWeights, lastActiveDate := date, isInitialised := True\<rparr>)
            | _ \<Rightarrow>
                (let sampleWithWeights =
                       map (\<lambda>t. t\<lparr>weight := computeWeight t\<rparr>) (sampleTasks uuid now)
                 in s\<lparr>tasks := sampleWithWeights, lastActiveDate := date,
                      isInitialised := True\<rparr>))))"

text \<open>The state before \<open>init\<close> has run.\<close>

definition initialStore :: store where
  "initialStore = \<lparr>tasks = [], lastActiveDate = None, isInitialised = False\<rparr>"

section \<open>The form of the All Tasks screen\<close>

record form =
  nameInput :: string
  typeInput :: string
  timingInput :: string
  editingTask :: "task option"
  modalVisible :: bool

text \<open>How a call of \<open>handleSave\<close> ends: with the alert shown, or with a \<open>TypeError\<close> thrown.\<close>

datatype feedback = Alert string | TypeError

text \<open>
  \<open>handleSave\<close>: how the call ends, the form after the call and the store after it.
  The empty string is the only falsy string. The screen imports the default export of
  \<open>expo-haptics\<close>, and that package has none: \<open>Haptics\<close> is \<open>undefined\<close>, so
  \<open>Haptics.notificationAsync\<close> throws a \<open>TypeError\<close>. This happens after the call of
  \<open>updateTask\<close> or \<open>addTask\<close>, whose update of the store stands, and before
  \<open>setModalVisible(false)\<close>, which is not reached.
\<close>

definition handleSave ::
  "string \<Rightarrow> int \<Rightarrow> int \<Rightarrow> form \<Rightarrow> store \<Rightarrow> feedback \<times> form \<times> store" where
  "handleSave uuid nowCreated nowUpdated f s =
     (let trimmed = trim (nameInput f) in
      if trimmed = [] then (Alert ''Please enter a task name.'', f, s)
      else
        (let s' = (case editingTask f of
                     Some t \<Rightarrow>
                       snd (updateTask nowUpdated (id_task t)
                              (noUpdates\<lparr>u_name := Some trimmed, u_type := Some (typeInput f),
                                         u_timing := Some (timingInput f)\<rparr>) s)
                   | None \<Rightarrow>
                       snd (addTask uuid nowCreated nowUpdated trimmed (typeInput f) (timingInput f) s))
         in (TypeError, f, s')))"

section \<open>Sequences of store operations\<close>

text \<open>One call of a mutating operation of the store, with the values it reads.\<close>

datatype action =
    AddTask string int int string string string
  | UpdateTask int string updates
  | RemoveTask string
  | ToggleCompleted int string
  | SetTodaySelected int string bool
  | ClearTodaySelections
  | UpdateLastActiveDate string

fun perform :: "action \<Rightarrow> store \<Rightarrow> store" where
  "perform (AddTask uuid nowCreated nowUpdated nm ty tm) s =
     snd (addTask uuid nowCreated nowUpdated nm ty tm s)"
| "perform (UpdateTask now i u) s = snd (updateTask now i u s)"
| "perform (RemoveTask i) s = snd (removeTask i s)"
| "perform (ToggleCompleted now i) s = snd (toggleCompleted now i s)"
| "perform (SetTodaySelected now i selected) s = snd (setTodaySelected now i selected s)"
| "perform ClearTodaySelections s = snd (clearTodaySelections s)"
| "perform (UpdateLastActiveDate todayStr) s = snd (updateLastActiveDate todayStr s)"

fun performAll :: "action list \<Rightarrow> store \<Rightarrow> store" where
  "performAll [] s = s"
| "performAll (a # as) s = performAll as (perform a s)"

text \<open>Every task carries the weight that \<open>computeWeight\<close> gives for it.\<close>

definition weightsConsistent :: "task list \<Rightarrow> bool" where
  "weightsConsistent ts = list_all (\<lambda>t. weight t = computeWeight t) ts"

text \<open>
  A comparison of strings by code units, one function that \<open>localeCompare\<close> can be.
\<close>

fun compareUnits :: "nat list \<Rightarrow> nat list \<Rightarrow> int" where
  "compareUnits [] [] = 0"
| "compareUnits [] (b # bs) = - 1"
| "compareUnits (a # as) [] = 1"
| "compareUnits (a # as) (b # bs) =
     (if a < b then - 1 else if b < a then 1 else compareUnits as bs)"

definition codeUnitCompare :: "string \<Rightarrow> string \<Rightarrow> int" where
  "codeUnitCompare a b = compareUnits (map of_char a) (map of_char b)"

text \<open>
  What ECMAScript requires of \<open>localeCompare\<close>: a total ordering of the strings. Here:
  of two strings one does not follow the other, and not following is transitive.
\<close>

definition totalOrdering :: "(string \<Rightarrow> string \<Rightarrow> int) \<Rightarrow> bool" where
  "totalOrdering localeCompare =
     ((\<forall>a b. localeCompare a b \<le> 0 \<or> localeCompare b a \<le> 0) \<and>
      (\<forall>a b c. localeCompare a b \<le> 0 \<and> localeCompare b c \<le> 0 \<longrightarrow> localeCompare a c \<le> 0))"

section \<open>Example states\<close>

text \<open>A task as the store holds it: its weight is the computed one.\<close>

definition exampleTask :: "string \<Rightarrow> string \<Rightarrow> string \<Rightarrow> string \<Rightarrow> bool \<Rightarrow> bool \<Rightarrow> task" where
  "exampleTask i nm ty tm isDone sel =
     (let t = \<lparr>id_task = i, name = nm, type = ty, timing = tm, completed = isDone,
                todaySelected = sel, createdAt = 0, updatedAt = 0, weight = NaN\<rparr>
      in t\<lparr>weight := computeWeight t\<rparr>)"

definition exampleStore :: "task list \<Rightarrow> store" where
  "exampleStore ts = \<lparr>tasks = ts, lastActiveDate = None, isInitialised = True\<rparr>"

text \<open>Twelve pending tasks of all five weights, and a completed one.\<close>

definition manyStore :: store where
  "manyStore = exampleStore
     [exampleTask ''1'' ''a'' ''Want'' ''Later'' False False,
      exampleTask ''2'' ''b'' ''Want'' ''Today'' False False,
      exampleTask ''3'' ''c'' ''Need'' ''Later'' False False,
      exampleTask ''4'' ''d'' ''Need'' ''Today'' False False,
      exampleTask ''5'' ''e'' ''Both'' ''Later'' False False,
      exampleTask ''6'' ''f'' ''Both'' ''Today'' False False,
      exampleTask ''7'' ''g'' ''Want'' ''Later'' False False,
      exampleTask ''8'' ''h'' ''Want'' ''Today'' False False,
      exampleTask ''9'' ''i'' ''Need'' ''Today'' False False,
      exampleTask ''10'' ''j'' ''Both'' ''Today'' False False,
      exampleTask ''11'' ''k'' ''Both'' ''Later'' False False,
      exampleTask ''12'' ''l'' ''Need'' ''Later'' False False,
      exampleTask ''13'' ''m'' ''Both'' ''Today'' True False]"

text \<open>Two pending tasks of weight 2, entered in the reverse order of their names.\<close>

definition tieStore :: store where
  "tieStore = exampleStore
     [exampleTask ''1'' ''b'' ''Need'' ''Later'' False False,
      exampleTask ''2'' ''a'' ''Want'' ''Today'' False False,
      exampleTask ''3'' ''c'' ''Both'' ''Today'' False False,
      exampleTask ''4'' ''d'' ''Both'' ''Today'' True False]"

text \<open>Two pending tasks whose type is a property name inherited from \<open>Object.prototype\<close>.\<close>

definition nanStore :: store where
  "nanStore = exampleStore
     [exampleTask ''1'' ''a'' ''constructor'' ''Today'' False False,
      exampleTask ''2'' ''b'' ''constructor'' ''Today'' False False]"

text \<open>One pending task that is selected for today.\<close>

definition selectedStore :: store where
  "selectedStore = exampleStore [exampleTask ''a'' ''Pay bills'' ''Need'' ''Today'' False True]"

text \<open>A persisted task whose stored weight is stale.\<close>

definition staleTask :: task where
  "staleTask = \<lparr>id_task = ''a'', name = ''Exercise'', type = ''Both'', timing = ''Today'',
     completed = False, todaySelected = True, createdAt = 3, updatedAt = 4,
     weight = Number 99\<rparr>"

text \<open>The add form with a name of blanks only, and with a proper name.\<close>

definition blankForm :: form where
  "blankForm = \<lparr>nameInput = ''   '', typeInput = ''Want'', timingInput = ''Today'',
     editingTask = None, modalVisible = True\<rparr>"

definition milkForm :: form where
  "milkForm = \<lparr>nameInput = '' Buy milk '', typeInput = ''Need'', timingInput = ''Today'',
     editingTask = None, modalVisible = True\<rparr>"

section \<open>The weight table as the specification words it\<close>

text \<open>
  The specification's \<open>typeWeight = {Want:1, Need:2, Both:3}\<close> and
  \<open>timingWeight = {Today:2, Later:1}\<close>, every other value counting 1. These two follow
  the specification's words, to be compared with \<open>computeWeight\<close>.
\<close>

definition specTypeWeight :: "string \<Rightarrow> int" where
  "specTypeWeight ty =
     (if ty = ''Want'' then 1 else if ty = ''Need'' then 2 else if ty = ''Both'' then 3 else 1)"

definition specTimingWeight :: "string \<Rightarrow> int" where
  "specTimingWeight tm = (if tm = ''Today'' then 2 else if tm = ''Later'' then 1 else 1)"

section \<open>Properties of the sort\<close>

lemma set_insertSorted: "set (insertSorted c x xs) = insert x (set xs)"
  by (induction xs) auto

lemma set_arraySort: "set (arraySort c xs) = set xs"
  by (induction xs) (auto simp: set_insertSorted)

lemma length_insertSorted: "length (insertSorted c x xs) = Suc (length xs)"
  by (induction xs) auto

lemma length_arraySort: "length (arraySort c xs) = length xs"
  by (induction xs) (auto simp: length_insertSorted)

lemma sorted_insertSorted:
  assumes total: "\<And>a b. P a \<Longrightarrow> P b \<Longrightarrow> sortCompare c a b \<le> 0 \<or> sortCompare c b a \<le> 0"
    and trans: "\<And>a b d. P a \<Longrightarrow> P b \<Longrightarrow> P d \<Longrightarrow> sortCompare c a b \<le> 0 \<Longrightarrow> sortCompare c b d \<le> 0
                  \<Longrightarrow> sortCompare c a d \<le> 0"
    and "P x" and "\<forall>y\<in>set xs. P y"
    and "sorted_wrt (\<lambda>a b. sortCompare c a b \<le> 0) xs"
  shows "sorted_wrt (\<lambda>a b. sortCompare c a b \<le> 0) (insertSorted c x xs)"
  using assms(3-)
proof (induction xs)
  case Nil
  then show ?case by simp
next
  case (Cons y ys)
  show ?case
  proof (cases "sortCompare c x y \<le> 0")
    case True
    have "\<forall>z\<in>set ys. sortCompare c x z \<le> 0"
    proof
      fix z assume z: "z \<in> set ys"
      with Cons.prems have "sortCompare c y z \<le> 0" by simp
      with True show "sortCompare c x z \<le> 0"
        using trans[of x y z] Cons.prems z by simp
    qed
    with True Cons.prems show ?thesis by simp
  next
    case False
    with total[of x y] Cons.prems have yx: "sortCompare c y x \<le> 0" by simp
    have "sorted_wrt (\<lambda>a b. sortCompare c a b \<le> 0) (insertSorted c x ys)"
      using Cons by simp
    with False yx Cons.prems show ?thesis by (simp add: set_insertSorted)
  qed
qed

lemma sorted_arraySort:
  assumes total: "\<And>a b. P a \<Longrightarrow> P b \<Longrightarrow> sortCompare c a b \<le> 0 \<or> sortCompare c b a \<le> 0"
    and trans: "\<And>a b d. P a \<Longrightarrow> P b \<Longrightarrow> P d \<Longrightarrow> sortCompare c a b \<le> 0 \<Longrightarrow> sortCompare c b d \<le> 0
                  \<Longrightarrow> sortCompare c a d \<le> 0"
    and "\<forall>y\<in>set xs. P y"
  shows "sorted_wrt (\<lambda>a b. sortCompare c a b \<le> 0) (arraySort c xs)"
  using assms(3)
proof (induction xs)
  case Nil
  then show ?case by simp
next
  case (Cons x xs)
  then have "sorted_wrt (\<lambda>a b. sortCompare c a b \<le> 0) (arraySort c xs)" by simp
  moreover have "\<forall>y\<in>set (arraySort c xs). P y" using Cons.prems by (simp add: set_arraySort)
  ultimately show ?case
    using sorted_insertSorted[of P c x "arraySort c xs", OF total trans] Cons.prems by simp
qed

lemma taskCompare_le_iff:
  assumes "isNumber (weight a)" "isNumber (weight b)"
  shows "sortCompare (taskCompare lc) a b \<le> 0 \<longleftrightarrow>
         (jsGe (weight a) (weight b) \<and> (weight a = weight b \<longrightarrow> lc (name a) (name b) \<le> 0))"
  using assms
  by (cases "weight a"; cases "weight b") (auto simp: sortCompare_def taskCompare_def)

lemma compareUnits_total: "compareUnits a b \<le> 0 \<or> compareUnits b a \<le> 0"
  by (induction a b rule: compareUnits.induct) auto

lemma compareUnits_trans:
  "compareUnits a b \<le> 0 \<Longrightarrow> compareUnits b c \<le> 0 \<Longrightarrow> compareUnits a c \<le> 0"
proof (induction a b arbitrary: c rule: compareUnits.induct)
  case 1
  then show ?case by simp
next
  case (2 b bs)
  then show ?case by (cases c) simp_all
next
  case (3 a as)
  then show ?case by simp
next
  case (4 x xs y ys)
  show ?case
  proof (cases c)
    case Nil
    with "4.prems" show ?thesis by simp
  next
    case (Cons z zs)
    have xy: "x \<le> y" using "4.prems"(1) by (cases "x < y"; cases "y < x"; simp)
    have yz: "y \<le> z" using "4.prems"(2) Cons by (cases "y < z"; cases "z < y"; simp)
    show ?thesis
    proof (cases "x < z")
      case True
      then show ?thesis by (simp add: Cons)
    next
      case False
      with xy yz have eq: "x = y" "y = z" by simp_all
      have "compareUnits xs ys \<le> 0" using "4.prems"(1) eq by simp
      moreover have "compareUnits ys zs \<le> 0" using "4.prems"(2) eq Cons by simp
      ultimately have "compareUnits xs zs \<le> 0" using "4.IH" eq by simp
      with eq show ?thesis by (simp add: Cons)
    qed
  qed
qed

lemma totalOrdering_codeUnitCompare: "totalOrdering codeUnitCompare"
  unfolding totalOrdering_def codeUnitCompare_def using compareUnits_total compareUnits_trans by blast

section \<open>Evaluation of the examples\<close>

lemmas eval_simps = getEliminationCandidates_def exampleStore_def exampleTask_def
  computeWeight_def getProp_def TYPE_WEIGHTS_def TIMING_WEIGHTS_def objectPrototypeKeys_def
  taskCompare_def sortCompare_def weightDescending_def codeUnitCompare_def Let_def

lemma manyStore_candidates:
  "map name (fst (getEliminationCandidates codeUnitCompare manyStore)) =
     [''f'', ''j'', ''d'', ''i'', ''e'', ''k'', ''b'', ''c'', ''h'', ''l'']"
  by (simp add: manyStore_def eval_simps)

lemma tieStore_candidates:
  "map name (fst (getEliminationCandidates codeUnitCompare tieStore)) = [''c'', ''a'', ''b'']"
  "map weight (fst (getEliminationCandidates codeUnitCompare tieStore)) =
     [Number 6, Number 2, Number 2]"
  by (simp_all add: tieStore_def eval_simps)

lemma nanStore_candidates:
  "map name (fst (getEliminationCandidates codeUnitCompare nanStore)) = [''a'', ''b'']"
  "map weight (fst (getEliminationCandidates codeUnitCompare nanStore)) = [NaN, NaN]"
  by (simp_all add: nanStore_def eval_simps)

section \<open>The elimination candidates\<close>

lemma getEliminationCandidates_candidatesBy:
  "fst (getEliminationCandidates lc s) =
     candidatesBy (arraySort (taskCompare lc)) (arraySort weightDescending) (tasks s)"
  by (simp add: getEliminationCandidates_def candidatesBy_def Let_def)

text \<open>
  The three bounds hold for every sort of the tasks that returns elements of its
  argument, and every sort of the weights: they do not depend on the order.
\<close>

lemma candidatesBy_bounds:
  assumes "\<And>xs. set (sortTasks xs) \<subseteq> set xs"
  shows "(\<forall>t \<in> set (candidatesBy sortTasks sortWeights ts). \<not> completed t) \<and>
         length (candidatesBy sortTasks sortWeights ts) \<le> 10 \<and>
         card (weight ` set (candidatesBy sortTasks sortWeights ts)) \<le> 5"
proof -
  define pending where "pending = filter (\<lambda>t. \<not> completed t) ts"
  define uniqueWeights where
    "uniqueWeights = take 5 (sortWeights (arrayFromSet (map weight (sortTasks pending))))"
  define r where "r = take 10 (filter (\<lambda>t. weight t \<in> set uniqueWeights) (sortTasks pending))"
  have r: "candidatesBy sortTasks sortWeights ts = r"
    by (simp add: candidatesBy_def Let_def r_def uniqueWeights_def pending_def)
  have sub: "set r \<subseteq> set (filter (\<lambda>t. weight t \<in> set uniqueWeights) (sortTasks pending))"
    unfolding r_def by (rule set_take_subset)
  then have "set r \<subseteq> set pending"
    using assms[of pending] by auto
  then have 1: "\<forall>t \<in> set r. \<not> completed t"
    by (auto simp: pending_def)
  have 2: "length r \<le> 10"
    by (simp add: r_def)
  have "weight ` set r \<subseteq> set uniqueWeights"
    using sub by auto
  then have "card (weight ` set r) \<le> card (set uniqueWeights)"
    by (simp add: card_mono)
  also have "\<dots> \<le> length uniqueWeights"
    by (rule card_length)
  also have "\<dots> \<le> 5"
    by (simp add: uniqueWeights_def)
  finally have 3: "card (weight ` set r) \<le> 5" .
  from 1 2 3 show ?thesis
    unfolding r by blast
qed

text \<open>
  Claim C1. For every task list, \<open>getEliminationCandidates\<close> returns no completed task,
  at most 10 tasks, and tasks of at most 5 distinct weights. (The three bounds do not
  depend on the order in which the sort leaves the tasks.)
\<close>

theorem getEliminationCandidates_bounds:
  "(\<forall>t \<in> set (fst (getEliminationCandidates lc s)). \<not> completed t) \<and>
   length (fst (getEliminationCandidates lc s)) \<le> 10 \<and>
   card (weight ` set (fst (getEliminationCandidates lc s))) \<le> 5"
proof -
  define pending where "pending = filter (\<lambda>t. \<not> completed t) (tasks s)"
  define sortedTasks where "sortedTasks = arraySort (taskCompare lc) pending"
  define uniqueWeights where
    "uniqueWeights = take 5 (arraySort weightDescending (arrayFromSet (map weight sortedTasks)))"
  define r where "r = take 10 (filter (\<lambda>t. weight t \<in> set uniqueWeights) sortedTasks)"
  have r: "fst (getEliminationCandidates lc s) = r"
    by (simp add: getEliminationCandidates_def Let_def r_def uniqueWeights_def sortedTasks_def
        pending_def)
  have sub: "set r \<subseteq> set (filter (\<lambda>t. weight t \<in> set uniqueWeights) sortedTasks)"
    unfolding r_def by (rule set_take_subset)
  have "set r \<subseteq> set pending"
    using sub by (auto simp: sortedTasks_def set_arraySort)
  then have 1: "\<forall>t \<in> set r. \<not> completed t"
    by (auto simp: pending_def)
  have 2: "length r \<le> 10"
    by (simp add: r_def)
  have "weight ` set r \<subseteq> set uniqueWeights"
    using sub by auto
  then have "card (weight ` set r) \<le> card (set uniqueWeights)"
    by (simp add: card_mono)
  also have "\<dots> \<le> length uniqueWeights"
    by (rule card_length)
  also have "\<dots> \<le> 5"
    by (simp add: uniqueWeights_def)
  finally have 3: "card (weight ` set r) \<le> 5" .
  from 1 2 3 show ?thesis
    unfolding r by blast
qed

theorem getEliminationCandidates_bounds_witness:
  "length (fst (getEliminationCandidates codeUnitCompare manyStore)) = 10 \<and>
   list_all (\<lambda>t. \<not> completed t) (fst (getEliminationCandidates codeUnitCompare manyStore)) \<and>
   card (weight ` set (fst (getEliminationCandidates codeUnitCompare manyStore))) \<le> 5"
proof -
  have "length (map name (fst (getEliminationCandidates codeUnitCompare manyStore))) = 10"
    unfolding manyStore_candidates by simp
  then have "length (fst (getEliminationCandidates codeUnitCompare manyStore)) = 10"
    by simp
  with getEliminationCandidates_bounds[where lc = codeUnitCompare and s = manyStore]
  show ?thesis
    by (simp add: list_all_iff)
qed

text \<open>
  The order of the candidates when every pending task has a number for weight (not
  \<open>NaN\<close>): of two tasks in the sequence returned by \<open>getEliminationCandidates\<close>, the
  earlier one's weight is greater than or equal to the later one's, and when the weights
  are equal the earlier task's name does not follow the later one's in the order of
  \<open>localeCompare\<close>, which is any total ordering of the strings.
\<close>

theorem getEliminationCandidates_ordered:
  assumes lc: "totalOrdering lc"
    and num: "\<forall>t \<in> set (tasks s). \<not> completed t \<longrightarrow> isNumber (weight t)"
    and ij: "i < j" "j < length (fst (getEliminationCandidates lc s))"
  shows "jsGe (weight (fst (getEliminationCandidates lc s) ! i))
              (weight (fst (getEliminationCandidates lc s) ! j)) \<and>
         (weight (fst (getEliminationCandidates lc s) ! i) =
          weight (fst (getEliminationCandidates lc s) ! j) \<longrightarrow>
          lc (name (fst (getEliminationCandidates lc s) ! i))
             (name (fst (getEliminationCandidates lc s) ! j)) \<le> 0)"
proof -
  define pending where "pending = filter (\<lambda>t. \<not> completed t) (tasks s)"
  define sortedTasks where "sortedTasks = arraySort (taskCompare lc) pending"
  define uniqueWeights where
    "uniqueWeights = take 5 (arraySort weightDescending (arrayFromSet (map weight sortedTasks)))"
  define r where "r = take 10 (filter (\<lambda>t. weight t \<in> set uniqueWeights) sortedTasks)"
  define le where "le = (\<lambda>a b. sortCompare (taskCompare lc) a b \<le> 0)"
  have r: "fst (getEliminationCandidates lc s) = r"
    by (simp add: getEliminationCandidates_def Let_def r_def uniqueWeights_def sortedTasks_def
        pending_def)
  have pnum: "\<forall>t \<in> set pending. isNumber (weight t)"
    using num by (simp add: pending_def)
  have total: "sortCompare (taskCompare lc) a b \<le> 0 \<or> sortCompare (taskCompare lc) b a \<le> 0"
    if "isNumber (weight a)" "isNumber (weight b)" for a b
  proof -
    from lc have "lc (name a) (name b) \<le> 0 \<or> lc (name b) (name a) \<le> 0"
      unfolding totalOrdering_def by blast
    with that show ?thesis
      unfolding taskCompare_le_iff[OF that] taskCompare_le_iff[OF that(2,1)]
      by (cases "weight a"; cases "weight b") auto
  qed
  have trans: "sortCompare (taskCompare lc) a d \<le> 0"
    if "isNumber (weight a)" "isNumber (weight b)" "isNumber (weight d)"
      "sortCompare (taskCompare lc) a b \<le> 0" "sortCompare (taskCompare lc) b d \<le> 0" for a b d
  proof -
    from lc have tr: "lc (name a) (name b) \<le> 0 \<Longrightarrow> lc (name b) (name d) \<le> 0
        \<Longrightarrow> lc (name a) (name d) \<le> 0"
      unfolding totalOrdering_def by blast
    from that(4,5) tr show ?thesis
      unfolding taskCompare_le_iff[OF that(1,2)] taskCompare_le_iff[OF that(2,3)]
        taskCompare_le_iff[OF that(1,3)]
      using that(1,2,3) by (cases "weight a"; cases "weight b"; cases "weight d") auto
  qed
  have "sorted_wrt le sortedTasks"
    unfolding le_def sortedTasks_def
    by (rule sorted_arraySort[where P = "\<lambda>t. isNumber (weight t)"]) (use total trans pnum in blast)+
  then have "sorted_wrt le r"
    unfolding r_def by (simp add: sorted_wrt_filter)
  with ij have le: "le (r ! i) (r ! j)"
    unfolding r by (simp add: sorted_wrt_nth_less)
  have "set r \<subseteq> set pending"
    unfolding r_def using set_take_subset[of 10 "filter (\<lambda>t. weight t \<in> set uniqueWeights) sortedTasks"]
    by (auto simp: sortedTasks_def set_arraySort)
  with pnum ij have "isNumber (weight (r ! i))" "isNumber (weight (r ! j))"
    unfolding r by (auto simp: subset_iff)
  from le[unfolded le_def taskCompare_le_iff[OF this]] show ?thesis
    unfolding r .
qed

theorem getEliminationCandidates_ordered_witness:
  "totalOrdering codeUnitCompare \<and>
   list_all (\<lambda>t. isNumber (weight t)) (tasks tieStore) \<and>
   map name (fst (getEliminationCandidates codeUnitCompare tieStore)) = [''c'', ''a'', ''b''] \<and>
   jsGe (weight (fst (getEliminationCandidates codeUnitCompare tieStore) ! 1))
        (weight (fst (getEliminationCandidates codeUnitCompare tieStore) ! 2)) \<and>
   weight (fst (getEliminationCandidates codeUnitCompare tieStore) ! 1) =
     weight (fst (getEliminationCandidates codeUnitCompare tieStore) ! 2) \<and>
   codeUnitCompare (name (fst (getEliminationCandidates codeUnitCompare tieStore) ! 1))
                   (name (fst (getEliminationCandidates codeUnitCompare tieStore) ! 2)) \<le> 0"
proof -
  have num: "list_all (\<lambda>t. isNumber (weight t)) (tasks tieStore)"
    by (simp add: tieStore_def eval_simps)
  then have hyp: "\<forall>t \<in> set (tasks tieStore). \<not> completed t \<longrightarrow> isNumber (weight t)"
    by (simp add: list_all_iff)
  have "length (map name (fst (getEliminationCandidates codeUnitCompare tieStore))) = 3"
    unfolding tieStore_candidates by simp
  then have len: "2 < length (fst (getEliminationCandidates codeUnitCompare tieStore))"
    by simp
  have "map weight (fst (getEliminationCandidates codeUnitCompare tieStore)) ! 1 =
        map weight (fst (getEliminationCandidates codeUnitCompare tieStore)) ! 2"
    unfolding tieStore_candidates by simp
  with len have eq: "weight (fst (getEliminationCandidates codeUnitCompare tieStore) ! 1) =
      weight (fst (getEliminationCandidates codeUnitCompare tieStore) ! 2)"
    by simp
  have "(1::nat) < 2" by simp
  from getEliminationCandidates_ordered[OF totalOrdering_codeUnitCompare hyp this len]
    totalOrdering_codeUnitCompare num eq tieStore_candidates(1)
  show ?thesis
    by simp
qed

text \<open>
  Claim C2 says that of two returned tasks the earlier one's weight is greater than or
  equal to the later one's. The store below holds two pending tasks of type
  \<open>constructor\<close>, to which \<open>computeWeight\<close> gives the weight \<open>NaN\<close>. The comparator
  returns \<open>NaN\<close> for them, which the sort reads as 0, so both are returned in the order
  of the store, and \<open>NaN >= NaN\<close> is false.
\<close>

theorem getEliminationCandidates_unordered_at_NaN:
  "map type (tasks nanStore) = [''constructor'', ''constructor''] \<and>
   map completed (tasks nanStore) = [False, False] \<and>
   map name (fst (getEliminationCandidates codeUnitCompare nanStore)) = [''a'', ''b''] \<and>
   map weight (fst (getEliminationCandidates codeUnitCompare nanStore)) = [NaN, NaN] \<and>
   \<not> jsGe (weight (fst (getEliminationCandidates codeUnitCompare nanStore) ! 0))
          (weight (fst (getEliminationCandidates codeUnitCompare nanStore) ! 1))"
proof -
  have "length (map weight (fst (getEliminationCandidates codeUnitCompare nanStore))) = 2"
    unfolding nanStore_candidates by simp
  then have len: "length (fst (getEliminationCandidates codeUnitCompare nanStore)) = 2"
    by simp
  have "map weight (fst (getEliminationCandidates codeUnitCompare nanStore)) ! 0 = NaN"
       "map weight (fst (getEliminationCandidates codeUnitCompare nanStore)) ! 1 = NaN"
    unfolding nanStore_candidates by simp_all
  with len have "weight (fst (getEliminationCandidates codeUnitCompare nanStore) ! 0) = NaN"
    "weight (fst (getEliminationCandidates codeUnitCompare nanStore) ! 1) = NaN"
    by simp_all
  moreover have "map type (tasks nanStore) = [''constructor'', ''constructor'']"
    "map completed (tasks nanStore) = [False, False]"
    by (simp_all add: nanStore_def exampleStore_def exampleTask_def)
  ultimately show ?thesis
    using nanStore_candidates by simp
qed

text \<open>
  Claim C9. Calling \<open>getEliminationCandidates\<close> twice, with nothing in between, returns
  the same sequence twice: the first call leaves the state as it found it.
\<close>

theorem getEliminationCandidates_repeatable:
  "fst (getEliminationCandidates lc (snd (getEliminationCandidates lc s))) =
     fst (getEliminationCandidates lc s) \<and>
   snd (getEliminationCandidates lc s) = s"
  by (simp add: getEliminationCandidates_def Let_def)

theorem getEliminationCandidates_repeatable_witness:
  "map name (fst (getEliminationCandidates codeUnitCompare
       (snd (getEliminationCandidates codeUnitCompare tieStore)))) = [''c'', ''a'', ''b''] \<and>
   map name (fst (getEliminationCandidates codeUnitCompare tieStore)) = [''c'', ''a'', ''b'']"
  using getEliminationCandidates_repeatable[where lc = codeUnitCompare and s = tieStore]
    tieStore_candidates(1)
  by simp

section \<open>The weight\<close>

lemma computeWeight_table:
  "computeWeight (t\<lparr>type := ''Want'', timing := ''Today''\<rparr>) = Number 2"
  "computeWeight (t\<lparr>type := ''Want'', timing := ''Later''\<rparr>) = Number 1"
  "computeWeight (t\<lparr>type := ''Need'', timing := ''Today''\<rparr>) = Number 4"
  "computeWeight (t\<lparr>type := ''Need'', timing := ''Later''\<rparr>) = Number 2"
  "computeWeight (t\<lparr>type := ''Both'', timing := ''Today''\<rparr>) = Number 6"
  "computeWeight (t\<lparr>type := ''Both'', timing := ''Later''\<rparr>) = Number 3"
  by (simp_all add: computeWeight_def getProp_def TYPE_WEIGHTS_def TIMING_WEIGHTS_def)

text \<open>
  Away from the twelve inherited property names, \<open>computeWeight\<close> is the product the
  specification tabulates, an unrecognised type or timing counting 1.
\<close>

lemma computeWeight_refines_spec:
  assumes "type t \<notin> set objectPrototypeKeys" "timing t \<notin> set objectPrototypeKeys"
  shows "computeWeight t = Number (specTypeWeight (type t) * specTimingWeight (timing t))"
  using assms
  by (simp add: computeWeight_def getProp_def TYPE_WEIGHTS_def TIMING_WEIGHTS_def
      specTypeWeight_def specTimingWeight_def)

text \<open>
  Claim C3 says that every unrecognised type counts 1. The type \<open>constructor\<close> is not
  one of Want, Need and Both, so with timing Today the specification's weight is
  \<open>1 * 2 = 2\<close>; \<open>computeWeight\<close> finds the inherited property
  \<open>TYPE_WEIGHTS['constructor']\<close>, which is truthy, and returns \<open>NaN\<close>.
\<close>

theorem computeWeight_inherited_key:
  "computeWeight (exampleTask ''1'' ''a'' ''constructor'' ''Today'' False False) = NaN \<and>
   specTypeWeight ''constructor'' * specTimingWeight ''Today'' = 2"
  by (simp add: exampleTask_def computeWeight_def getProp_def TYPE_WEIGHTS_def TIMING_WEIGHTS_def
      objectPrototypeKeys_def specTypeWeight_def specTimingWeight_def)

lemma computeWeight_weight_update: "computeWeight (t\<lparr>weight := w\<rparr>) = computeWeight t"
  by (simp add: computeWeight_def)

lemma computeWeight_cong:
  "type a = type b \<Longrightarrow> timing a = timing b \<Longrightarrow> computeWeight a = computeWeight b"
  by (simp add: computeWeight_def)

lemma weightsConsistent_perform:
  "weightsConsistent (tasks s) \<Longrightarrow> weightsConsistent (tasks (perform a s))"
proof (cases a)
  case (AddTask uuid nc nu nm ty tm)
  then show "weightsConsistent (tasks s) \<Longrightarrow> ?thesis"
    by (simp add: weightsConsistent_def addTask_def Let_def computeWeight_def)
next
  case (UpdateTask now i u)
  then show "weightsConsistent (tasks s) \<Longrightarrow> ?thesis"
    by (auto simp: weightsConsistent_def updateTask_def Let_def computeWeight_weight_update
        list_all_iff)
next
  case (RemoveTask i)
  then show "weightsConsistent (tasks s) \<Longrightarrow> ?thesis"
    by (simp add: weightsConsistent_def removeTask_def list_all_iff)
next
  case (ToggleCompleted now i)
  then show "weightsConsistent (tasks s) \<Longrightarrow> ?thesis"
    by (auto simp: weightsConsistent_def toggleCompleted_def list_all_iff computeWeight_def)
next
  case (SetTodaySelected now i b)
  then show "weightsConsistent (tasks s) \<Longrightarrow> ?thesis"
    by (auto simp: weightsConsistent_def setTodaySelected_def list_all_iff computeWeight_def)
next
  case ClearTodaySelections
  then show "weightsConsistent (tasks s) \<Longrightarrow> ?thesis"
    by (auto simp: weightsConsistent_def clearTodaySelections_def list_all_iff computeWeight_def)
next
  case (UpdateLastActiveDate d)
  then show "weightsConsistent (tasks s) \<Longrightarrow> ?thesis"
    by (simp add: weightsConsistent_def updateLastActiveDate_def)
qed

lemma weightsConsistent_performAll:
  "weightsConsistent (tasks s) \<Longrightarrow> weightsConsistent (tasks (performAll as s))"
  by (induction as arbitrary: s) (simp_all add: weightsConsistent_perform)

lemma weightsConsistent_init:
  "weightsConsistent (tasks s) \<Longrightarrow> weightsConsistent (tasks (init tj ds uuid now s))"
  by (simp add: init_def weightsConsistent_def list_all_iff computeWeight_weight_update Let_def
      split: item.splits option.splits)

text \<open>A consistent weight is the specification's product, away from the inherited names.\<close>

lemma weightsConsistent_spec:
  assumes "weightsConsistent ts" "t \<in> set ts"
    "type t \<notin> set objectPrototypeKeys" "timing t \<notin> set objectPrototypeKeys"
  shows "weight t = Number (specTypeWeight (type t) * specTimingWeight (timing t))"
  using assms computeWeight_refines_spec[of t]
  by (simp add: weightsConsistent_def list_all_iff)

lemma updateTask_ignores_weight: "updateTask now i (u\<lparr>u_weight := w\<rparr>) s = updateTask now i u s"
  by (simp add: updateTask_def spread_def Let_def computeWeight_def)

text \<open>
  After loading and after any sequence of store operations, before and after the load,
  every task's weight is the one \<open>computeWeight\<close> gives for its type and timing. Loading
  replaces the persisted weight and nothing else, and \<open>updateTask\<close> does the same
  whatever weight the update object carries.
\<close>

theorem weight_always_recomputed:
  "weightsConsistent
     (tasks (performAll as2 (init tasksJSON dateStr uuid now (performAll as1 initialStore)))) \<and>
   tasks (init (Found (Some parsed)) Missing uuid now s) =
     map (\<lambda>t. t\<lparr>weight := computeWeight t\<rparr>) parsed \<and>
   tasks (init (Found (Some parsed)) (Found d) uuid now s) =
     map (\<lambda>t. t\<lparr>weight := computeWeight t\<rparr>) parsed \<and>
   updateTask n i (u\<lparr>u_weight := w\<rparr>) s = updateTask n i u s"
proof -
  have "weightsConsistent (tasks initialStore)"
    by (simp add: initialStore_def weightsConsistent_def)
  then have "weightsConsistent
      (tasks (performAll as2 (init tasksJSON dateStr uuid now (performAll as1 initialStore))))"
    by (intro weightsConsistent_performAll weightsConsistent_init)
  moreover have "tasks (init (Found (Some parsed)) Missing uuid now s) =
      map (\<lambda>t. t\<lparr>weight := computeWeight t\<rparr>) parsed"
    "tasks (init (Found (Some parsed)) (Found d) uuid now s) =
      map (\<lambda>t. t\<lparr>weight := computeWeight t\<rparr>) parsed"
    by (simp_all add: init_def)
  ultimately show ?thesis
    using updateTask_ignores_weight by blast
qed

theorem weight_always_recomputed_witness:
  "weight staleTask = Number 99 \<and>
   tasks (init (Found (Some [staleTask])) Missing (\<lambda>k. ''u'') (\<lambda>k. 0) initialStore) =
     [staleTask\<lparr>weight := Number 6\<rparr>] \<and>
   weightsConsistent
     (tasks (performAll [UpdateTask 9 ''a'' (noUpdates\<lparr>u_type := Some ''Want'', u_weight := Some (Number 42)\<rparr>)]
        (init (Found (Some [staleTask])) Missing (\<lambda>k. ''u'') (\<lambda>k. 0) (performAll [] initialStore)))) \<and>
   map weight
     (tasks (performAll [UpdateTask 9 ''a'' (noUpdates\<lparr>u_type := Some ''Want'', u_weight := Some (Number 42)\<rparr>)]
        (init (Found (Some [staleTask])) Missing (\<lambda>k. ''u'') (\<lambda>k. 0) (performAll [] initialStore)))) =
     [Number 2]"
proof -
  have cw: "computeWeight staleTask = Number 6"
    by (simp add: staleTask_def computeWeight_def getProp_def TYPE_WEIGHTS_def TIMING_WEIGHTS_def)
  have ev: "map weight
     (tasks (performAll [UpdateTask 9 ''a'' (noUpdates\<lparr>u_type := Some ''Want'', u_weight := Some (Number 42)\<rparr>)]
        (init (Found (Some [staleTask])) Missing (\<lambda>k. ''u'') (\<lambda>k. 0) (performAll [] initialStore)))) =
     [Number 2]"
    by (simp add: init_def initialStore_def staleTask_def updateTask_def spread_def noUpdates_def
        computeWeight_def getProp_def TYPE_WEIGHTS_def TIMING_WEIGHTS_def)
  from weight_always_recomputed[where ?as2.0 = "[UpdateTask 9 ''a'' (noUpdates\<lparr>u_type := Some ''Want'', u_weight := Some (Number 42)\<rparr>)]"
      and ?as1.0 = "[]" and tasksJSON = "Found (Some [staleTask])" and dateStr = Missing
      and uuid = "\<lambda>k. ''u''" and now = "\<lambda>k. 0" and parsed = "[staleTask]" and s = initialStore]
    cw ev
  show ?thesis
    by (simp add: staleTask_def)
qed

text \<open>
  Hence in every state the store can reach, a task whose type and timing are not among
  the inherited property names has the weight the specification tabulates.
\<close>

lemma reachable_weight_is_spec_product:
  assumes "t \<in> set (tasks (performAll as2
                (init tasksJSON dateStr uuid now (performAll as1 initialStore))))"
    and "type t \<notin> set objectPrototypeKeys" "timing t \<notin> set objectPrototypeKeys"
  shows "weight t = Number (specTypeWeight (type t) * specTimingWeight (timing t))"
proof -
  have "weightsConsistent (tasks initialStore)"
    by (simp add: initialStore_def weightsConsistent_def)
  then have "weightsConsistent
      (tasks (performAll as2 (init tasksJSON dateStr uuid now (performAll as1 initialStore))))"
    by (intro weightsConsistent_performAll weightsConsistent_init)
  from weightsConsistent_spec[OF this assms] show ?thesis .
qed

text \<open>
  Claim C8 says that after any sequence of store operations, and after loading, every
  task's weight equals \<open>typeWeight(type) * timingWeight(timing)\<close>. After loading an
  empty task list and one \<open>addTask('a', 'constructor', 'Today')\<close> the store holds a
  task of type \<open>constructor\<close> and timing Today, for which the product is \<open>1 * 2 = 2\<close>,
  with the weight \<open>NaN\<close>; a persisted task of that type is loaded with the weight
  \<open>NaN\<close> as well.
\<close>

theorem weight_not_the_product_at_inherited_key:
  "map type (tasks (performAll [AddTask ''u'' 1 2 ''a'' ''constructor'' ''Today'']
      (init (Found (Some [])) Missing (\<lambda>k. ''s'') (\<lambda>k. 0) initialStore))) = [''constructor''] \<and>
   map timing (tasks (performAll [AddTask ''u'' 1 2 ''a'' ''constructor'' ''Today'']
      (init (Found (Some [])) Missing (\<lambda>k. ''s'') (\<lambda>k. 0) initialStore))) = [''Today''] \<and>
   map weight (tasks (performAll [AddTask ''u'' 1 2 ''a'' ''constructor'' ''Today'']
      (init (Found (Some [])) Missing (\<lambda>k. ''s'') (\<lambda>k. 0) initialStore))) = [NaN] \<and>
   map weight (tasks (init (Found (Some [staleTask\<lparr>type := ''constructor''\<rparr>])) Missing
      (\<lambda>k. ''s'') (\<lambda>k. 0) initialStore)) = [NaN] \<and>
   specTypeWeight ''constructor'' * specTimingWeight ''Today'' = 2"
  by (simp add: init_def initialStore_def addTask_def staleTask_def Let_def
      computeWeight_def getProp_def TYPE_WEIGHTS_def TIMING_WEIGHTS_def objectPrototypeKeys_def
      specTypeWeight_def specTimingWeight_def)

section \<open>Operations on one task\<close>

text \<open>
  Claim C4. For every task of the store with the given id, \<open>toggleCompleted\<close> flips
  \<open>completed\<close> and sets \<open>todaySelected\<close> to its old value when the task was completed
  before the call, and to false when it was not.
\<close>

theorem toggleCompleted_flips:
  assumes "k < length (tasks s)" "id_task (tasks s ! k) = i"
  shows "length (tasks (snd (toggleCompleted now i s))) = length (tasks s) \<and>
     completed (tasks (snd (toggleCompleted now i s)) ! k) = (\<not> completed (tasks s ! k)) \<and>
     todaySelected (tasks (snd (toggleCompleted now i s)) ! k) =
       (if completed (tasks s ! k) then todaySelected (tasks s ! k) else False)"
  using assms by (simp add: toggleCompleted_def)

theorem toggleCompleted_flips_witness:
  "0 < length (tasks selectedStore) \<and> id_task (tasks selectedStore ! 0) = ''a'' \<and>
   \<not> completed (tasks selectedStore ! 0) \<and>
   completed (tasks (snd (toggleCompleted 7 ''a'' selectedStore)) ! 0) \<and>
   \<not> todaySelected (tasks (snd (toggleCompleted 7 ''a'' selectedStore)) ! 0)"
proof -
  have h: "0 < length (tasks selectedStore)" "id_task (tasks selectedStore ! 0) = ''a''"
    "\<not> completed (tasks selectedStore ! 0)"
    by (simp_all add: selectedStore_def exampleStore_def exampleTask_def)
  from toggleCompleted_flips[OF h(1,2), where now = 7] h show ?thesis
    by simp
qed

text \<open>
  Claim C5, as amended. For every task with \<open>todaySelected\<close> true and \<open>completed\<close> false,
  the first \<open>toggleCompleted\<close> makes \<open>completed\<close> true and \<open>todaySelected\<close> false; the second
  makes \<open>completed\<close> false and leaves \<open>todaySelected\<close> false.
\<close>

theorem toggleCompleted_twice:
  assumes "k < length (tasks s)" "id_task (tasks s ! k) = i"
    "todaySelected (tasks s ! k)" "\<not> completed (tasks s ! k)"
  shows "completed (tasks (snd (toggleCompleted now1 i s)) ! k) \<and>
         \<not> todaySelected (tasks (snd (toggleCompleted now1 i s)) ! k) \<and>
         \<not> completed (tasks (snd (toggleCompleted now2 i (snd (toggleCompleted now1 i s)))) ! k) \<and>
         \<not> todaySelected (tasks (snd (toggleCompleted now2 i (snd (toggleCompleted now1 i s)))) ! k)"
  using assms by (simp add: toggleCompleted_def)

theorem toggleCompleted_twice_witness:
  "todaySelected (tasks selectedStore ! 0) \<and> \<not> completed (tasks selectedStore ! 0) \<and>
   completed (tasks (snd (toggleCompleted 7 ''a'' selectedStore)) ! 0) \<and>
   \<not> todaySelected (tasks (snd (toggleCompleted 7 ''a'' selectedStore)) ! 0) \<and>
   \<not> completed (tasks (snd (toggleCompleted 8 ''a'' (snd (toggleCompleted 7 ''a'' selectedStore)))) ! 0) \<and>
   \<not> todaySelected (tasks (snd (toggleCompleted 8 ''a'' (snd (toggleCompleted 7 ''a'' selectedStore)))) ! 0)"
proof -
  have h: "0 < length (tasks selectedStore)" "id_task (tasks selectedStore ! 0) = ''a''"
    "todaySelected (tasks selectedStore ! 0)" "\<not> completed (tasks selectedStore ! 0)"
    by (simp_all add: selectedStore_def exampleStore_def exampleTask_def)
  from toggleCompleted_twice[OF h, where ?now1.0 = 7 and ?now2.0 = 8] h show ?thesis
    by simp
qed

text \<open>
  Claim C5 as stated fails: the task is selected for today and not completed, and after
  one \<open>toggleCompleted\<close> it is completed and no longer selected for today.
\<close>

theorem toggleCompleted_twice_counterexample:
  "todaySelected (tasks selectedStore ! 0) \<and> \<not> completed (tasks selectedStore ! 0) \<and>
   id_task (tasks selectedStore ! 0) = ''a'' \<and>
   completed (tasks (snd (toggleCompleted 7 ''a'' selectedStore)) ! 0) \<and>
   \<not> todaySelected (tasks (snd (toggleCompleted 7 ''a'' selectedStore)) ! 0)"
  by (simp add: selectedStore_def exampleStore_def exampleTask_def toggleCompleted_def)

text \<open>
  Claim C10. \<open>clearTodaySelections\<close> sets \<open>todaySelected\<close> to false on every task and
  leaves every other field of every task, and the rest of the state, as it was. It does
  not refresh \<open>updatedAt\<close>, which \<open>toggleCompleted\<close>, \<open>setTodaySelected\<close> and \<open>updateTask\<close>
  set to the current time on the task they change.
\<close>

theorem clearTodaySelections_frame:
  "fst (clearTodaySelections s) = Inr Undefined \<and>
   lastActiveDate (snd (clearTodaySelections s)) = lastActiveDate s \<and>
   isInitialised (snd (clearTodaySelections s)) = isInitialised s \<and>
   length (tasks (snd (clearTodaySelections s))) = length (tasks s) \<and>
   (\<forall>k < length (tasks s).
      \<not> todaySelected (tasks (snd (clearTodaySelections s)) ! k) \<and>
      id_task (tasks (snd (clearTodaySelections s)) ! k) = id_task (tasks s ! k) \<and>
      name (tasks (snd (clearTodaySelections s)) ! k) = name (tasks s ! k) \<and>
      type (tasks (snd (clearTodaySelections s)) ! k) = type (tasks s ! k) \<and>
      timing (tasks (snd (clearTodaySelections s)) ! k) = timing (tasks s ! k) \<and>
      completed (tasks (snd (clearTodaySelections s)) ! k) = completed (tasks s ! k) \<and>
      createdAt (tasks (snd (clearTodaySelections s)) ! k) = createdAt (tasks s ! k) \<and>
      updatedAt (tasks (snd (clearTodaySelections s)) ! k) = updatedAt (tasks s ! k) \<and>
      weight (tasks (snd (clearTodaySelections s)) ! k) = weight (tasks s ! k) \<and>
      (id_task (tasks s ! k) = i \<longrightarrow>
         updatedAt (tasks (snd (toggleCompleted now i s)) ! k) = now \<and>
         updatedAt (tasks (snd (setTodaySelected now i selected s)) ! k) = now \<and>
         updatedAt (tasks (snd (updateTask now i u s)) ! k) = now))"
  by (simp add: clearTodaySelections_def toggleCompleted_def setTodaySelected_def updateTask_def
      Let_def)

theorem clearTodaySelections_frame_witness:
  "0 < length (tasks selectedStore) \<and> id_task (tasks selectedStore ! 0) = ''a'' \<and>
   todaySelected (tasks selectedStore ! 0) \<and> updatedAt (tasks selectedStore ! 0) = 0 \<and>
   \<not> todaySelected (tasks (snd (clearTodaySelections selectedStore)) ! 0) \<and>
   updatedAt (tasks (snd (clearTodaySelections selectedStore)) ! 0) = 0 \<and>
   updatedAt (tasks (snd (setTodaySelected 7 ''a'' False selectedStore)) ! 0) = 7"
proof -
  have h: "0 < length (tasks selectedStore)" "id_task (tasks selectedStore ! 0) = ''a''"
    "todaySelected (tasks selectedStore ! 0)" "updatedAt (tasks selectedStore ! 0) = 0"
    by (simp_all add: selectedStore_def exampleStore_def exampleTask_def)
  from clearTodaySelections_frame[where s = selectedStore and i = "''a''" and now = 7
      and selected = False and u = noUpdates] h
  show ?thesis
    by simp
qed

section \<open>Ids that the store does not hold\<close>

lemma map_id_absent:
  assumes "i \<notin> id_task ` set ts"
  shows "map (\<lambda>t. if id_task t = i then f t else t) ts = ts"
    and "map (\<lambda>t. if id_task t \<noteq> i then t else f t) ts = ts"
    and "filter (\<lambda>t. id_task t \<noteq> i) ts = ts"
  using assms by (induction ts) auto

text \<open>
  Claim C7, as amended. For every id not present in the store, \<open>updateTask\<close>,
  \<open>removeTask\<close>, \<open>toggleCompleted\<close> and \<open>setTodaySelected\<close> return normally, with no
  error, and leave the state, the task collection included, unchanged.
\<close>

theorem absent_id_no_effect:
  assumes "i \<notin> id_task ` set (tasks s)"
  shows "updateTask now i u s = (Inr Undefined, s) \<and>
         removeTask i s = (Inr Undefined, s) \<and>
         toggleCompleted now i s = (Inr Undefined, s) \<and>
         setTodaySelected now i selected s = (Inr Undefined, s)"
  using assms
  by (simp add: updateTask_def removeTask_def toggleCompleted_def setTodaySelected_def
      map_id_absent)

theorem absent_id_no_effect_witness:
  "id_task ` set (tasks selectedStore) = {''a''} \<and>
   updateTask 7 ''zz'' (noUpdates\<lparr>u_name := Some ''x''\<rparr>) selectedStore =
     (Inr Undefined, selectedStore) \<and>
   removeTask ''zz'' selectedStore = (Inr Undefined, selectedStore) \<and>
   toggleCompleted 7 ''zz'' selectedStore = (Inr Undefined, selectedStore) \<and>
   setTodaySelected 7 ''zz'' True selectedStore = (Inr Undefined, selectedStore)"
proof -
  have ids: "id_task ` set (tasks selectedStore) = {''a''}"
    by (simp add: selectedStore_def exampleStore_def exampleTask_def)
  then have "''zz'' \<notin> id_task ` set (tasks selectedStore)"
    by simp
  from absent_id_no_effect[OF this, where now = 7 and u = "noUpdates\<lparr>u_name := Some ''x''\<rparr>"
      and selected = True] ids
  show ?thesis
    by simp
qed

text \<open>
  Claim C7 as stated fails: the id \<open>zz\<close> is not in the store, and none of the four calls
  throws \<open>NotFoundError\<close>; each returns \<open>undefined\<close>.
\<close>

theorem absent_id_counterexample:
  "id_task ` set (tasks selectedStore) = {''a''} \<and>
   fst (updateTask 7 ''zz'' noUpdates selectedStore) = Inr Undefined \<and>
   fst (removeTask ''zz'' selectedStore) = Inr Undefined \<and>
   fst (toggleCompleted 7 ''zz'' selectedStore) = Inr Undefined \<and>
   fst (setTodaySelected 7 ''zz'' True selectedStore) = Inr Undefined"
  by (simp add: selectedStore_def exampleStore_def exampleTask_def updateTask_def removeTask_def
      toggleCompleted_def setTodaySelected_def)

section \<open>Adding a task\<close>

lemma trim_trim: "trim (trim s) = trim s"
proof -
  define a where "a = dropWhile isWhiteSpace s"
  define c where "c = dropWhile isWhiteSpace (rev a)"
  have b: "trim s = rev c" by (simp add: trim_def a_def c_def)
  have "rev a = takeWhile isWhiteSpace (rev a) @ c" by (simp add: c_def)
  then have "a = rev c @ rev (takeWhile isWhiteSpace (rev a))"
    by (metis rev_append rev_rev_ident)
  then have hd: "rev c \<noteq> [] \<Longrightarrow> hd (rev c) = hd a" by (metis hd_append2)
  have "dropWhile isWhiteSpace (rev c) = rev c"
  proof (cases "rev c = []")
    case True
    then show ?thesis by simp
  next
    case False
    then have "a \<noteq> []" using \<open>a = rev c @ _\<close> by auto
    then have "\<not> isWhiteSpace (hd a)" unfolding a_def by (rule hd_dropWhile)
    with hd False show ?thesis by (simp add: dropWhile_eq_self_iff)
  qed
  moreover have "dropWhile isWhiteSpace c = c" by (simp add: c_def)
  ultimately have "rev (dropWhile isWhiteSpace (rev (dropWhile isWhiteSpace (rev c)))) = rev c"
    by simp
  then show ?thesis unfolding b unfolding trim_def .
qed

text \<open>
  Claim C6, as amended. \<open>addTask\<close> does not validate and returns no value: for every
  name it returns \<open>undefined\<close> and puts a new task first, whose name is the trimmed name,
  empty or not. It is \<open>handleSave\<close>, the caller, that rejects a name that trims to the empty
  string: it shows an alert and leaves form and store unchanged; for any other name, in
  add mode, it adds the task under the trimmed name.
\<close>

theorem addTask_no_validation:
  "fst (addTask uuid nc nu nm ty tm s) = Inr Undefined \<and>
   (\<exists>t. tasks (snd (addTask uuid nc nu nm ty tm s)) = t # tasks s \<and>
        id_task t = uuid \<and> name t = trim nm \<and> type t = ty \<and> timing t = tm \<and>
        \<not> completed t \<and> \<not> todaySelected t \<and> weight t = computeWeight t) \<and>
   (trim (nameInput f) = [] \<longrightarrow>
      handleSave uuid nc nu f s = (Alert ''Please enter a task name.'', f, s)) \<and>
   (trim (nameInput f) \<noteq> [] \<and> editingTask f = None \<longrightarrow>
      (\<exists>t. tasks (snd (snd (handleSave uuid nc nu f s))) = t # tasks s \<and>
           id_task t = uuid \<and> name t = trim (nameInput f) \<and> name t \<noteq> []))"
  by (simp add: addTask_def handleSave_def Let_def computeWeight_def trim_trim)

lemma trim_examples:
  "trim (nameInput blankForm) = []" "trim (nameInput milkForm) = ''Buy milk''"
  by (simp_all add: blankForm_def milkForm_def trim_def isWhiteSpace_def)

theorem addTask_no_validation_witness:
  "trim (nameInput blankForm) = [] \<and>
   handleSave ''u'' 1 2 blankForm initialStore =
     (Alert ''Please enter a task name.'', blankForm, initialStore) \<and>
   trim (nameInput milkForm) = ''Buy milk'' \<and> editingTask milkForm = None \<and>
   map name (tasks (snd (snd (handleSave ''u'' 1 2 milkForm initialStore)))) = [''Buy milk'']"
proof -
  have e: "editingTask milkForm = None" "tasks initialStore = []"
    by (simp_all add: milkForm_def initialStore_def)
  from addTask_no_validation[where f = blankForm and s = initialStore and uuid = "''u''"
      and nc = 1 and nu = 2 and nm = "[]" and ty = "[]" and tm = "[]"]
    addTask_no_validation[where f = milkForm and s = initialStore and uuid = "''u''"
      and nc = 1 and nu = 2 and nm = "[]" and ty = "[]" and tm = "[]"]
    trim_examples e
  show ?thesis
    by auto
qed

text \<open>
  Claim C6 as stated fails: for the name of three blanks, which trims to the empty
  string, \<open>addTask\<close> throws nothing and adds a task with the empty name; for the name
  \<open>Buy milk\<close> it returns \<open>undefined\<close> and not the new id.
\<close>

theorem addTask_validation_counterexample:
  "trim ''   '' = [] \<and>
   fst (addTask ''u'' 1 2 ''   '' ''Want'' ''Today'' initialStore) = Inr Undefined \<and>
   map name (tasks (snd (addTask ''u'' 1 2 ''   '' ''Want'' ''Today'' initialStore))) = [[]] \<and>
   tasks initialStore = [] \<and>
   fst (addTask ''u'' 1 2 ''Buy milk'' ''Want'' ''Today'' initialStore) = Inr Undefined"
  by (simp add: addTask_def initialStore_def trim_def isWhiteSpace_def Let_def)

end
